theory Spec2Isabelle
  imports Main "HOL-Library.Word"
begin

section \<open>The X11 data that clickthrough.c handles\<close>

text \<open>
  The program is one C function, \<open>main\<close>, that talks to an X server through Xlib and
  the Shape extension library. Resource identifiers chosen by the server (the root window,
  the default colormap) and those allocated by the client's Xlib (\<open>XAllocID\<close>) live in
  disjoint ranges; the two constructors keep them apart.
\<close>

datatype xid = ServerId nat | ClientId nat

type_synonym visualid = nat
type_synonym point = "int \<times> int"
type_synonym region = "point set"
type_synonym pixel = "32 word"

datatype visual_class = StaticGray | GrayScale | StaticColor | PseudoColor | TrueColor | DirectColor

text \<open>The fields of \<open>XVisualInfo\<close> that the program reads: \<open>visual\<close>, \<open>depth\<close>, \<open>class\<close>.\<close>

record XVisualInfo =
  vi_visual :: visualid
  vi_depth :: int
  vi_class :: visual_class

datatype alloc = AllocNone | AllocAll

datatype window_class = InputOutput | InputOnly

datatype cw_flag =
    CWBackPixmap | CWBackPixel | CWBorderPixmap | CWBorderPixel | CWBitGravity
  | CWWinGravity | CWBackingStore | CWBackingPlanes | CWBackingPixel | CWOverrideRedirect
  | CWSaveUnder | CWEventMask | CWDontPropagate | CWColormap | CWCursor

text \<open>
  \<open>XSetWindowAttributes attrs\<close> is an uninitialised local of \<open>main\<close>; lines 29-32 assign
  four of its fields and the value mask of line 43 names exactly those four, so no other
  field is ever read.
\<close>

record XSetWindowAttributes =
  colormap :: xid
  background_pixel :: pixel
  border_pixel :: pixel
  override_redirect :: bool

datatype shape_kind = ShapeBounding | ShapeClip | ShapeInput

datatype shape_op = ShapeSet | ShapeUnion | ShapeIntersect | ShapeSubtract | ShapeInvert

text \<open>
  The protocol requests the program's Xlib calls produce. A bitmap given to \<open>ShapeMask\<close>
  is modelled by the set of its 1-bits; \<open>None\<close> is the C constant \<open>None\<close> (no pixmap).
\<close>

datatype request =
    CreateColormap xid xid visualid alloc
  | CreateWindow xid xid int int int int int int window_class visualid "cw_flag set" XSetWindowAttributes
  | ChangeProperty xid string string
  | MapWindow xid
  | ShapeMask xid shape_kind int int "region option" shape_op
  | CreateGC xid xid
  | ChangeGC xid pixel
  | PolyFillRectangle xid xid int int int int
  | PolyText8 xid xid int int string

datatype xerror = BadRequest | BadValue | BadWindow | BadMatch | BadDrawable | BadGC | BadColor

section \<open>The X server\<close>

text \<open>
  The Xlib functions are not part of the repository. Their effect is modelled after the
  X Window System core protocol and the X Nonrectangular Window Shape Extension protocol
  (version 1.1), for the requests that the program makes and for the parts of a window's
  state that the specification talks about: whether it is mapped, its attributes, its
  bounding, clip and input shapes, and its contents.
\<close>

record window =
  w_parent :: "xid option"
  w_x :: int
  w_y :: int
  w_width :: int
  w_height :: int
  w_border_width :: int
  w_depth :: int
  w_class :: window_class
  w_visual :: visualid
  w_colormap :: "xid option"
  w_background :: "pixel option"
  w_border :: "pixel option"
  w_override_redirect :: bool
  w_mapped :: bool
  w_name :: "string option"
  w_bounding :: "region option"
  w_clip :: "region option"
  w_input :: "region option"
  w_pixels :: "point \<Rightarrow> pixel"

record gc =
  gc_depth :: int
  gc_foreground :: pixel

record server =
  srv_width :: "16 word"
  srv_height :: "16 word"
  srv_visuals :: "XVisualInfo list"
  srv_shape :: bool
  srv_redirect :: bool
  srv_font :: "string \<Rightarrow> region"
  srv_windows :: "xid \<rightharpoonup> window"
  srv_colormaps :: "xid \<rightharpoonup> visualid"
  srv_gcs :: "xid \<rightharpoonup> gc"
  srv_map_requests :: "xid list"
  srv_errors :: "xerror list"

definition fail :: "xerror \<Rightarrow> server \<Rightarrow> server" where
  "fail e s = s\<lparr>srv_errors := srv_errors s @ [e]\<rparr>"

subsection \<open>Regions of a window\<close>

text \<open>
  Coordinates are relative to the window's origin (the top-left pixel inside the border).
  The default bounding and input regions are the window rectangle with its border; the
  default clip region is the rectangle inside the border (Shape extension protocol).
\<close>

definition rectangle :: "int \<Rightarrow> int \<Rightarrow> int \<Rightarrow> int \<Rightarrow> region" where
  "rectangle x y w h = {(px, py). x \<le> px \<and> px < x + w \<and> y \<le> py \<and> py < y + h}"

definition default_bounding :: "window \<Rightarrow> region" where
  "default_bounding w =
     rectangle (- w_border_width w) (- w_border_width w)
       (w_width w + 2 * w_border_width w) (w_height w + 2 * w_border_width w)"

definition default_clip :: "window \<Rightarrow> region" where
  "default_clip w = rectangle 0 0 (w_width w) (w_height w)"

definition effective_bounding :: "window \<Rightarrow> region" where
  "effective_bounding w =
     (case w_bounding w of
        None \<Rightarrow> default_bounding w
      | Some r \<Rightarrow> r \<inter> default_bounding w)"

definition effective_input :: "window \<Rightarrow> region" where
  "effective_input w =
     (case w_input w of
        None \<Rightarrow> default_bounding w
      | Some r \<Rightarrow> r \<inter> default_bounding w) \<inter> effective_bounding w"

definition effective_clip :: "window \<Rightarrow> region" where
  "effective_clip w =
     (case w_clip w of
        None \<Rightarrow> default_clip w
      | Some r \<Rightarrow> r \<inter> default_clip w) \<inter> effective_bounding w"

text \<open>
  A pointer event at a window-relative position is delivered to the window when the window
  is mapped and the position lies in its effective input region; otherwise the event goes
  to whatever is beneath.
\<close>

definition pointer_delivered :: "server \<Rightarrow> xid \<Rightarrow> point \<Rightarrow> bool" where
  "pointer_delivered s wid p =
     (case srv_windows s wid of
        None \<Rightarrow> False
      | Some w \<Rightarrow> w_mapped w \<and> p \<in> effective_input w)"

text \<open>What of the window can show on the screen: nothing while it is unmapped.\<close>

definition visible_region :: "server \<Rightarrow> xid \<Rightarrow> region" where
  "visible_region s wid =
     (case srv_windows s wid of
        None \<Rightarrow> {}
      | Some w \<Rightarrow> if w_mapped w then effective_bounding w else {})"

subsection \<open>Core requests\<close>

definition create_colormap :: "xid \<Rightarrow> xid \<Rightarrow> visualid \<Rightarrow> alloc \<Rightarrow> server \<Rightarrow> server" where
  "create_colormap mid wid v a s =
     (case srv_windows s wid of
        None \<Rightarrow> fail BadWindow s
      | Some _ \<Rightarrow>
          (case find (\<lambda>vi. vi_visual vi = v) (srv_visuals s) of
             None \<Rightarrow> fail BadMatch s
           | Some vi \<Rightarrow>
               if a = AllocAll \<and> vi_class vi \<in> {StaticGray, StaticColor, TrueColor}
               then fail BadMatch s
               else s\<lparr>srv_colormaps := (srv_colormaps s)(mid \<mapsto> v)\<rparr>))"

definition new_window ::
  "xid \<Rightarrow> int \<Rightarrow> int \<Rightarrow> int \<Rightarrow> int \<Rightarrow> int \<Rightarrow> int \<Rightarrow> window_class \<Rightarrow> visualid \<Rightarrow>
   cw_flag set \<Rightarrow> XSetWindowAttributes \<Rightarrow> window" where
  "new_window parent x y w h bw d cls v vm attrs =
     \<lparr>w_parent = Some parent, w_x = x, w_y = y, w_width = w, w_height = h,
      w_border_width = bw, w_depth = d, w_class = cls, w_visual = v,
      w_colormap = (if CWColormap \<in> vm then Some (colormap attrs) else None),
      w_background = (if CWBackPixel \<in> vm then Some (background_pixel attrs) else None),
      w_border = (if CWBorderPixel \<in> vm then Some (border_pixel attrs) else None),
      w_override_redirect = (CWOverrideRedirect \<in> vm \<and> override_redirect attrs),
      w_mapped = False, w_name = None,
      w_bounding = None, w_clip = None, w_input = None,
      w_pixels = (\<lambda>_. 0)\<rparr>"

text \<open>
  \<open>CreateWindow\<close>, with the checks of the core protocol that
  bear on the attributes the program passes: a zero size is a Value error; an
  \<open>InputOnly\<close> window takes depth 0, no border and no output attribute; the depth and
  visual must be supported by the screen; a border copied from a parent of another depth,
  a colormap copied from a parent of another visual, and a colormap of another visual than
  the window's are Match errors; a colormap that does not exist is a Colormap error.
\<close>

definition create_window ::
  "xid \<Rightarrow> xid \<Rightarrow> int \<Rightarrow> int \<Rightarrow> int \<Rightarrow> int \<Rightarrow> int \<Rightarrow> int \<Rightarrow> window_class \<Rightarrow> visualid \<Rightarrow>
   cw_flag set \<Rightarrow> XSetWindowAttributes \<Rightarrow> server \<Rightarrow> server" where
  "create_window wid parent x y w h bw d cls v vm attrs s =
     (case srv_windows s parent of
        None \<Rightarrow> fail BadWindow s
      | Some pw \<Rightarrow>
          if w = 0 \<or> h = 0 then fail BadValue s
          else if cls = InputOnly then
            (if d = 0 \<and> bw = 0 \<and> vm \<inter> {CWBackPixmap, CWBackPixel, CWBorderPixmap,
                  CWBorderPixel, CWBitGravity, CWBackingStore, CWBackingPlanes, CWBackingPixel,
                  CWSaveUnder, CWColormap} = {}
             then s\<lparr>srv_windows :=
                    (srv_windows s)(wid \<mapsto> new_window parent x y w h bw d cls v vm attrs)\<rparr>
             else fail BadMatch s)
          else if find (\<lambda>vi. vi_visual vi = v \<and> vi_depth vi = d) (srv_visuals s) = None
            then fail BadMatch s
          else if CWBorderPixel \<notin> vm \<and> CWBorderPixmap \<notin> vm \<and> d \<noteq> w_depth pw
            then fail BadMatch s
          else if CWColormap \<notin> vm then
            (if v \<noteq> w_visual pw then fail BadMatch s
             else s\<lparr>srv_windows :=
                    (srv_windows s)(wid \<mapsto> new_window parent x y w h bw d cls v vm attrs)\<rparr>)
          else
            (case srv_colormaps s (colormap attrs) of
               None \<Rightarrow> fail BadColor s
             | Some cv \<Rightarrow>
                 if cv \<noteq> v then fail BadMatch s
                 else s\<lparr>srv_windows :=
                        (srv_windows s)(wid \<mapsto> new_window parent x y w h bw d cls v vm attrs)\<rparr>))"

definition change_property :: "xid \<Rightarrow> string \<Rightarrow> string \<Rightarrow> server \<Rightarrow> server" where
  "change_property wid prop val s =
     (case srv_windows s wid of
        None \<Rightarrow> fail BadWindow s
      | Some w \<Rightarrow>
          if prop = ''WM_NAME''
          then s\<lparr>srv_windows := (srv_windows s)(wid \<mapsto> w\<lparr>w_name := Some val\<rparr>)\<rparr>
          else s)"

text \<open>
  \<open>MapWindow\<close>: when the window's override-redirect attribute is false and a window manager
  has selected substructure redirection on the parent, the server only forwards a
  MapRequest to the window manager and the window stays unmapped; otherwise the window is
  mapped at once and shows its background.
\<close>

definition map_window :: "xid \<Rightarrow> server \<Rightarrow> server" where
  "map_window wid s =
     (case srv_windows s wid of
        None \<Rightarrow> fail BadWindow s
      | Some w \<Rightarrow>
          if w_mapped w then s
          else if srv_redirect s \<and> \<not> w_override_redirect w
            then s\<lparr>srv_map_requests := srv_map_requests s @ [wid]\<rparr>
          else s\<lparr>srv_windows := (srv_windows s)(wid \<mapsto>
                 w\<lparr>w_mapped := True,
                   w_pixels := (case w_background w of
                                  None \<Rightarrow> w_pixels w
                                | Some bg \<Rightarrow> (\<lambda>_. bg))\<rparr>)\<rparr>)"

subsection \<open>The Shape extension\<close>

definition get_shape :: "shape_kind \<Rightarrow> window \<Rightarrow> region option" where
  "get_shape k w = (case k of ShapeBounding \<Rightarrow> w_bounding w | ShapeClip \<Rightarrow> w_clip w | ShapeInput \<Rightarrow> w_input w)"

definition set_shape :: "shape_kind \<Rightarrow> region option \<Rightarrow> window \<Rightarrow> window" where
  "set_shape k r w =
     (case k of
        ShapeBounding \<Rightarrow> w\<lparr>w_bounding := r\<rparr>
      | ShapeClip \<Rightarrow> w\<lparr>w_clip := r\<rparr>
      | ShapeInput \<Rightarrow> w\<lparr>w_input := r\<rparr>)"

definition default_shape :: "shape_kind \<Rightarrow> window \<Rightarrow> region" where
  "default_shape k w = (case k of ShapeClip \<Rightarrow> default_clip w | _ \<Rightarrow> default_bounding w)"

definition translate :: "int \<Rightarrow> int \<Rightarrow> region \<Rightarrow> region" where
  "translate dx dy r = {(x, y). (x - dx, y - dy) \<in> r}"

definition combine :: "shape_op \<Rightarrow> region \<Rightarrow> region \<Rightarrow> region" where
  "combine op dest src =
     (case op of
        ShapeSet \<Rightarrow> src
      | ShapeUnion \<Rightarrow> dest \<union> src
      | ShapeIntersect \<Rightarrow> dest \<inter> src
      | ShapeSubtract \<Rightarrow> dest - src
      | ShapeInvert \<Rightarrow> src - dest)"

text \<open>
  \<open>ShapeMask\<close> (Shape extension protocol): the source bitmap is converted to a region,
  moved by the offset and combined with the client region of the given kind (the default
  region when the window has none). "If source-bitmap is None, the specified client region
  is removed from the window, causing the effective region to revert to the default
  region": with no bitmap the operation code has no meaning and the window ends with no
  client region of that kind.
\<close>

definition shape_mask ::
  "xid \<Rightarrow> shape_kind \<Rightarrow> int \<Rightarrow> int \<Rightarrow> region option \<Rightarrow> shape_op \<Rightarrow> server \<Rightarrow> server" where
  "shape_mask wid k xoff yoff src op s =
     (if \<not> srv_shape s then fail BadRequest s
      else
        (case srv_windows s wid of
           None \<Rightarrow> fail BadWindow s
         | Some w \<Rightarrow>
             (case src of
                None \<Rightarrow> s\<lparr>srv_windows := (srv_windows s)(wid \<mapsto> set_shape k None w)\<rparr>
              | Some bits \<Rightarrow>
                  let dest = (case get_shape k w of None \<Rightarrow> default_shape k w | Some r \<Rightarrow> r)
                  in s\<lparr>srv_windows := (srv_windows s)(wid \<mapsto>
                         set_shape k (Some (combine op dest (translate xoff yoff bits))) w)\<rparr>)))"

subsection \<open>Graphics requests\<close>

definition create_gc :: "xid \<Rightarrow> xid \<Rightarrow> server \<Rightarrow> server" where
  "create_gc gid d s =
     (case srv_windows s d of
        None \<Rightarrow> fail BadDrawable s
      | Some w \<Rightarrow>
          if w_class w = InputOnly then fail BadMatch s
          else s\<lparr>srv_gcs := (srv_gcs s)(gid \<mapsto> \<lparr>gc_depth = w_depth w, gc_foreground = 0\<rparr>)\<rparr>)"

definition change_gc :: "xid \<Rightarrow> pixel \<Rightarrow> server \<Rightarrow> server" where
  "change_gc gid fg s =
     (case srv_gcs s gid of
        None \<Rightarrow> fail BadGC s
      | Some g \<Rightarrow> s\<lparr>srv_gcs := (srv_gcs s)(gid \<mapsto> g\<lparr>gc_foreground := fg\<rparr>)\<rparr>)"

text \<open>
  Drawing with the default graphics context (function copy, solid fill, all planes, no
  client clip mask) stores the foreground, cut to the depth of the drawable, in every
  pixel of the shape that lies in the window's effective clip region. A window that is
  not mapped keeps no contents, so drawing into it is lost.
\<close>

definition draw :: "xid \<Rightarrow> xid \<Rightarrow> region \<Rightarrow> server \<Rightarrow> server" where
  "draw d gid shape s =
     (case srv_windows s d of
        None \<Rightarrow> fail BadDrawable s
      | Some w \<Rightarrow>
          (case srv_gcs s gid of
             None \<Rightarrow> fail BadGC s
           | Some g \<Rightarrow>
               if w_class w = InputOnly then fail BadMatch s
               else if gc_depth g \<noteq> w_depth w then fail BadMatch s
               else if \<not> w_mapped w then s
               else s\<lparr>srv_windows := (srv_windows s)(d \<mapsto>
                      w\<lparr>w_pixels := (\<lambda>p. if p \<in> shape \<inter> effective_clip w
                                         then take_bit (nat (w_depth w)) (gc_foreground g)
                                         else w_pixels w p)\<rparr>)\<rparr>))"

fun deliver :: "request \<Rightarrow> server \<Rightarrow> server" where
  "deliver (CreateColormap mid wid v a) s = create_colormap mid wid v a s"
| "deliver (CreateWindow wid parent x y w h bw d cls v vm attrs) s =
     create_window wid parent x y w h bw d cls v vm attrs s"
| "deliver (ChangeProperty wid prop val) s = change_property wid prop val s"
| "deliver (MapWindow wid) s = map_window wid s"
| "deliver (ShapeMask wid k xoff yoff src op) s = shape_mask wid k xoff yoff src op s"
| "deliver (CreateGC gid d) s = create_gc gid d s"
| "deliver (ChangeGC gid fg) s = change_gc gid fg s"
| "deliver (PolyFillRectangle d gid x y w h) s = draw d gid (rectangle x y w h) s"
| "deliver (PolyText8 d gid x y str) s = draw d gid (translate x y (srv_font s str)) s"

text \<open>The server processes the requests of a batch in the order they were made.\<close>

definition deliver_all :: "request list \<Rightarrow> server \<Rightarrow> server" where
  "deliver_all rs s = foldl (\<lambda>s r. deliver r s) s rs"

section \<open>The client: Xlib, the process and its environment\<close>

text \<open>
  What the program finds when it starts: whether a display can be opened, the default
  screen's size, root depth and visual, the visuals the screen offers, whether the server
  has the Shape extension, whether a window manager redirects map requests on the root
  window, and the glyph pixels of the server's default font.
\<close>

record environment =
  env_display :: bool
  env_width :: "16 word"
  env_height :: "16 word"
  env_root_depth :: int
  env_root_visual :: visualid
  env_visuals :: "XVisualInfo list"
  env_shape :: bool
  env_wm :: bool
  env_font :: "string \<Rightarrow> region"

definition root_window :: "environment \<Rightarrow> window" where
  "root_window env =
     \<lparr>w_parent = None, w_x = 0, w_y = 0,
      w_width = uint (env_width env), w_height = uint (env_height env),
      w_border_width = 0, w_depth = env_root_depth env, w_class = InputOutput,
      w_visual = env_root_visual env, w_colormap = Some (ServerId 1),
      w_background = None, w_border = None, w_override_redirect = False,
      w_mapped = True, w_name = None,
      w_bounding = None, w_clip = None, w_input = None,
      w_pixels = (\<lambda>_. 0)\<rparr>"

definition boot :: "environment \<Rightarrow> server" where
  "boot env =
     \<lparr>srv_width = env_width env, srv_height = env_height env,
      srv_visuals = env_visuals env, srv_shape = env_shape env,
      srv_redirect = env_wm env, srv_font = env_font env,
      srv_windows = [ServerId 0 \<mapsto> root_window env],
      srv_colormaps = [ServerId 1 \<mapsto> env_root_visual env],
      srv_gcs = Map.empty, srv_map_requests = [], srv_errors = []\<rparr>"

datatype printf_arg = ArgInt int | ArgXid xid

datatype event =
    Queued request
  | Flushed
  | Slept nat
  | Printf string "printf_arg list"
  | Stderr string
  | MissingExtension string

text \<open>
  The process: the server as the requests delivered so far have left it, Xlib's output
  buffer (requests made but not yet written to the connection), Xlib's resource-id
  allocator, and everything the process has done, in order.
\<close>

record process =
  server :: server
  outbuf :: "request list"
  next_id :: nat
  history :: "event list"

definition start :: "environment \<Rightarrow> process" where
  "start env = \<lparr>server = boot env, outbuf = [], next_id = 0, history = []\<rparr>"

definition log :: "event \<Rightarrow> process \<Rightarrow> process" where
  "log e p = p\<lparr>history := history p @ [e]\<rparr>"

definition queue :: "request \<Rightarrow> process \<Rightarrow> process" where
  "queue r p = log (Queued r) (p\<lparr>outbuf := outbuf p @ [r]\<rparr>)"

definition XAllocID :: "process \<Rightarrow> xid \<times> process" where
  "XAllocID p = (ClientId (next_id p), p\<lparr>next_id := Suc (next_id p)\<rparr>)"

text \<open>Values as the protocol encodes them: INT16, CARD16 and CARD8 fields.\<close>

definition int16 :: "int \<Rightarrow> int" where
  "int16 n = sint (word_of_int n :: 16 word)"

definition card16 :: "int \<Rightarrow> int" where
  "card16 n = uint (word_of_int n :: 16 word)"

definition card8 :: "int \<Rightarrow> int" where
  "card8 n = uint (word_of_int n :: 8 word)"

subsection \<open>The library calls of the program\<close>

text \<open>\<open>XOpenDisplay(NULL)\<close>: a null pointer when the server cannot be reached.\<close>

definition XOpenDisplay :: "environment \<Rightarrow> process option" where
  "XOpenDisplay env = (if env_display env then Some (start env) else None)"

definition DefaultScreen :: "process \<Rightarrow> int" where
  "DefaultScreen display = 0"

definition RootWindow :: "process \<Rightarrow> int \<Rightarrow> xid" where
  "RootWindow display screen = ServerId 0"

definition DisplayWidth :: "process \<Rightarrow> int \<Rightarrow> int" where
  "DisplayWidth display screen = uint (srv_width (server display))"

text \<open>
  \<open>XMatchVisualInfo\<close> returns a status and writes \<open>*vinfo_return\<close> only when a visual
  of the depth and class exists; otherwise the status is 0 and the structure keeps what it
  held.
\<close>

definition XMatchVisualInfo ::
  "process \<Rightarrow> int \<Rightarrow> int \<Rightarrow> visual_class \<Rightarrow> XVisualInfo \<Rightarrow> int \<times> XVisualInfo" where
  "XMatchVisualInfo display screen d c vinfo =
     (case find (\<lambda>vi. vi_depth vi = d \<and> vi_class vi = c) (srv_visuals (server display)) of
        None \<Rightarrow> (0, vinfo)
      | Some vi \<Rightarrow> (1, vi))"

definition XCreateColormap :: "xid \<Rightarrow> visualid \<Rightarrow> alloc \<Rightarrow> process \<Rightarrow> xid \<times> process" where
  "XCreateColormap w v a display =
     (let (mid, p) = XAllocID display in (mid, queue (CreateColormap mid w v a) p))"

definition XCreateWindow ::
  "xid \<Rightarrow> int \<Rightarrow> int \<Rightarrow> int \<Rightarrow> int \<Rightarrow> int \<Rightarrow> int \<Rightarrow> window_class \<Rightarrow> visualid \<Rightarrow>
   cw_flag set \<Rightarrow> XSetWindowAttributes \<Rightarrow> process \<Rightarrow> xid \<times> process" where
  "XCreateWindow parent x y width height border_width d cls v valuemask attributes display =
     (let (wid, p) = XAllocID display
      in (wid, queue (CreateWindow wid parent (int16 x) (int16 y) (card16 width) (card16 height)
                        (card16 border_width) (card8 d) cls v valuemask attributes) p))"

definition XStoreName :: "xid \<Rightarrow> string \<Rightarrow> process \<Rightarrow> process" where
  "XStoreName w name display = queue (ChangeProperty w ''WM_NAME'' name) display"

definition XMapWindow :: "xid \<Rightarrow> process \<Rightarrow> process" where
  "XMapWindow w display = queue (MapWindow w) display"

text \<open>\<open>XFlush\<close> writes the output buffer: the server processes its requests in order.\<close>

definition XFlush :: "process \<Rightarrow> process" where
  "XFlush display =
     log Flushed
       (display\<lparr>server := deliver_all (outbuf display) (server display), outbuf := []\<rparr>)"

text \<open>
  \<open>XShapeCombineMask\<close> (libXext) first checks that the display has the extension; when it
  has not, the library's missing-extension hook (\<open>XMissingExtension\<close>, which by
  default writes a warning to standard error) runs and the call returns without making a
  request. The function returns \<open>void\<close>.
\<close>

definition XShapeCombineMask ::
  "xid \<Rightarrow> shape_kind \<Rightarrow> int \<Rightarrow> int \<Rightarrow> region option \<Rightarrow> shape_op \<Rightarrow> process \<Rightarrow> process" where
  "XShapeCombineMask dest dest_kind x_off y_off src op display =
     (if srv_shape (server display)
      then queue (ShapeMask dest dest_kind (int16 x_off) (int16 y_off) src op) display
      else log (MissingExtension ''SHAPE'') display)"

definition XCreateGC :: "xid \<Rightarrow> process \<Rightarrow> xid \<times> process" where
  "XCreateGC d display = (let (gid, p) = XAllocID display in (gid, queue (CreateGC gid d) p))"

text \<open>
  \<open>XSetForeground\<close> changes Xlib's copy of the graphics context, and Xlib sends the change
  before the next request that draws with the context; the model sends it at once, which
  gives the server the same requests in the same order.
\<close>

definition XSetForeground :: "xid \<Rightarrow> pixel \<Rightarrow> process \<Rightarrow> process" where
  "XSetForeground g foreground display = queue (ChangeGC g foreground) display"

definition XFillRectangle :: "xid \<Rightarrow> xid \<Rightarrow> int \<Rightarrow> int \<Rightarrow> int \<Rightarrow> int \<Rightarrow> process \<Rightarrow> process" where
  "XFillRectangle d g x y width height display =
     queue (PolyFillRectangle d g (int16 x) (int16 y) (card16 width) (card16 height)) display"

definition XDrawString :: "xid \<Rightarrow> xid \<Rightarrow> int \<Rightarrow> int \<Rightarrow> string \<Rightarrow> nat \<Rightarrow> process \<Rightarrow> process" where
  "XDrawString d g x y str len display =
     queue (PolyText8 d g (int16 x) (int16 y) (take len str)) display"

definition printf :: "string \<Rightarrow> printf_arg list \<Rightarrow> process \<Rightarrow> process" where
  "printf fmt args p = log (Printf fmt args) p"

definition sleep :: "nat \<Rightarrow> process \<Rightarrow> process" where
  "sleep n p = log (Slept n) p"

section \<open>The program\<close>

text \<open>
  \<open>main\<close> is straight-line code; its parts are named after the operations of the
  specification. Line 26: the status of \<open>XMatchVisualInfo\<close> is discarded, and
  \<open>vinfo\<close> is an uninitialised local before the call; \<open>vinfo0\<close> stands for whatever it
  holds then.
\<close>

definition selectAlphaVisual :: "process \<Rightarrow> int \<Rightarrow> XVisualInfo \<Rightarrow> XVisualInfo" where
  "selectAlphaVisual display screen vinfo0 =
     snd (XMatchVisualInfo display screen 32 TrueColor vinfo0)"

text \<open>Lines 35-37: the local variables \<open>x\<close>, \<open>y\<close>, \<open>width\<close>, \<open>height\<close>.\<close>

definition geometry :: "process \<Rightarrow> int \<Rightarrow> int \<times> int \<times> int \<times> int" where
  "geometry display screen =
     (let width = 200; height = 200;
          x = DisplayWidth display screen - width - 50;
          y = 50
      in (x, y, width, height))"

text \<open>Lines 29-32 and 39-48: colormap, attributes, window, name.\<close>

definition createWindow ::
  "xid \<Rightarrow> XVisualInfo \<Rightarrow> int \<Rightarrow> int \<Rightarrow> int \<Rightarrow> int \<Rightarrow> process \<Rightarrow> xid \<times> process" where
  "createWindow root vinfo x y width height display =
     (let (cmap, p1) = XCreateColormap root (vi_visual vinfo) AllocNone display;
          attrs = \<lparr>colormap = cmap, background_pixel = 0, border_pixel = 0,
                   override_redirect = True\<rparr>;
          (window, p2) = XCreateWindow root x y width height 0 (vi_depth vinfo) InputOutput
                           (vi_visual vinfo)
                           {CWColormap, CWBackPixel, CWBorderPixel, CWOverrideRedirect} attrs p1
      in (window, XStoreName window ''C ClickThrough Test'' p2))"

text \<open>Lines 51-58: map, flush, two status lines, one second of sleep.\<close>

definition show_window :: "int \<Rightarrow> int \<Rightarrow> int \<Rightarrow> int \<Rightarrow> xid \<Rightarrow> process \<Rightarrow> process" where
  "show_window x y width height window display =
     sleep 1
       (printf ''Window ID: 0x%lx\<newline>'' [ArgXid window]
         (printf ''Window created at (%d, %d) size %dx%d\<newline>''
            [ArgInt x, ArgInt y, ArgInt width, ArgInt height]
           (XFlush (XMapWindow window display))))"

text \<open>Lines 61-73.\<close>

definition setClickThrough :: "xid \<Rightarrow> process \<Rightarrow> process" where
  "setClickThrough window display =
     printf ''Click-through applied - input shape removed\<newline>'' []
       (XFlush
         (XShapeCombineMask window ShapeInput 0 0 None ShapeSet
           (printf ''Applying click-through with Shape extension...\<newline>'' [] display)))"

text \<open>Lines 76-83.\<close>

definition paint :: "xid \<Rightarrow> int \<Rightarrow> int \<Rightarrow> process \<Rightarrow> process" where
  "paint window width height display =
     (let (g, p1) = XCreateGC window display;
          p2 = XSetForeground g 0xFFFF0000 p1;
          p3 = XFillRectangle window g 0 0 width height p2;
          p4 = XSetForeground g 0xFFFFFFFF p3;
          p5 = XDrawString window g 50 100 ''Click Through Test'' 18 p4
      in XFlush p5)"

text \<open>
  Lines 89-91: \<open>while (1) sleep(1)\<close> has no exit. The fuel counts the iterations watched;
  the result \<open>None\<close> says that the loop has not returned, and no fuel makes it return.
  Lines 93-94 after the loop are unreachable.
\<close>

fun keep_alive :: "nat \<Rightarrow> process \<Rightarrow> process \<times> int option" where
  "keep_alive 0 p = (p, None)"
| "keep_alive (Suc n) p = keep_alive n (sleep 1 p)"

text \<open>
  The whole of \<open>main\<close>: the final process and the exit status, \<open>None\<close> while the process
  is still running.
\<close>

definition main :: "environment \<Rightarrow> XVisualInfo \<Rightarrow> nat \<Rightarrow> process \<times> int option" where
  "main env vinfo0 fuel =
     (case XOpenDisplay env of
        None \<Rightarrow> (log (Stderr ''Cannot open display\<newline>'') (start env), Some 1)
      | Some display \<Rightarrow>
          let screen = DefaultScreen display;
              root = RootWindow display screen;
              vinfo = selectAlphaVisual display screen vinfo0;
              (x, y, width, height) = geometry display screen;
              (window, p1) = createWindow root vinfo x y width height display;
              p2 = show_window x y width height window p1;
              p3 = setClickThrough window p2;
              p4 = paint window width height p3;
              p5 = printf ''Window should be visible and click-through\<newline>'' [] p4;
              p6 = printf ''Press Ctrl+C to exit\<newline>'' [] p5
          in keep_alive fuel p6)"

section \<open>Observations\<close>

text \<open>The contents of a window at a position, and the alpha channel of a 32-bit pixel.\<close>

definition pixel_at :: "server \<Rightarrow> xid \<Rightarrow> point \<Rightarrow> pixel option" where
  "pixel_at s wid p = (case srv_windows s wid of None \<Rightarrow> None | Some w \<Rightarrow> Some (w_pixels w p))"

definition alpha :: "pixel \<Rightarrow> pixel" where
  "alpha px = drop_bit 24 px"

text \<open>
  The server as it stands after each flush of a history: the requests queued since the
  last flush are delivered, in order, to the server that the flush before left.
\<close>

fun replay :: "event list \<Rightarrow> request list \<Rightarrow> server \<Rightarrow> server list" where
  "replay [] buf s = []"
| "replay (Queued r # es) buf s = replay es (buf @ [r]) s"
| "replay (Flushed # es) buf s = deliver_all buf s # replay es [] (deliver_all buf s)"
| "replay (e # es) buf s = replay es buf s"

text \<open>What the process does strictly between the first \<open>a\<close> and the next \<open>b\<close>.\<close>

definition between :: "event \<Rightarrow> event \<Rightarrow> event list \<Rightarrow> event list" where
  "between a b es = takeWhile (\<lambda>e. e \<noteq> b) (tl (dropWhile (\<lambda>e. e \<noteq> a) es))"

text \<open>
  The requests of a history, cut at its flushes: the batches that were written to the
  server, in order, and the requests still waiting in the buffer at the end.
\<close>

fun batches :: "event list \<Rightarrow> request list \<Rightarrow> request list list \<times> request list" where
  "batches [] cur = ([], cur)"
| "batches (Queued r # es) cur = batches es (cur @ [r])"
| "batches (Flushed # es) cur = (cur # fst (batches es []), snd (batches es []))"
| "batches (e # es) cur = batches es cur"

subsection \<open>Environments to run the program in\<close>

text \<open>
  A 1920x1080 display with a 24-bit root visual, a 32-bit true-colour visual, the Shape
  extension, a window manager, and a font whose strings fill 6x13 character cells.
\<close>

definition cell_font :: "string \<Rightarrow> region" where
  "cell_font str = rectangle 0 (- 11) (6 * int (length str)) 13"

definition desktop :: environment where
  "desktop =
     \<lparr>env_display = True, env_width = 1920, env_height = 1080,
      env_root_depth = 24, env_root_visual = 33,
      env_visuals = [\<lparr>vi_visual = 33, vi_depth = 24, vi_class = TrueColor\<rparr>,
                     \<lparr>vi_visual = 118, vi_depth = 32, vi_class = TrueColor\<rparr>],
      env_shape = True, env_wm = True, env_font = cell_font\<rparr>"

text \<open>The same display without a 32-bit visual, and without the Shape extension.\<close>

definition no_alpha :: environment where
  "no_alpha = desktop\<lparr>env_visuals := [\<lparr>vi_visual = 33, vi_depth = 24, vi_class = TrueColor\<rparr>]\<rparr>"

definition no_shape :: environment where
  "no_shape = desktop\<lparr>env_shape := False\<rparr>"

text \<open>Some contents for the uninitialised \<open>vinfo\<close> of \<open>main\<close>.\<close>

definition stale :: XVisualInfo where
  "stale = \<lparr>vi_visual = 0, vi_depth = 0, vi_class = StaticGray\<rparr>"

section \<open>Properties of the model\<close>

subsection \<open>The client side of each part of \<open>main\<close>\<close>


lemma keep_alive_server: "server (fst (keep_alive n p)) = server p"
  by (induction n arbitrary: p) (simp_all add: sleep_def log_def)

lemma keep_alive_snd: "snd (keep_alive n p) = None"
  by (induction n arbitrary: p) simp_all

lemma keep_alive_history: "history (fst (keep_alive n p)) = history p @ replicate n (Slept 1)"
  by (induction n arbitrary: p) (simp_all add: sleep_def log_def replicate_app_Cons_same)

lemma keep_alive_outbuf: "outbuf (fst (keep_alive n p)) = outbuf p"
  by (induction n arbitrary: p) (simp_all add: sleep_def log_def)

lemma deliver_all_append: "deliver_all (rs @ rs') s = deliver_all rs' (deliver_all rs s)"
  by (simp add: deliver_all_def)

lemma deliver_all_Nil: "deliver_all [] s = s"
  by (simp add: deliver_all_def)

lemma deliver_all_Cons: "deliver_all (r # rs) s = deliver_all rs (deliver r s)"
  by (simp add: deliver_all_def)

lemma int16_small: "- 32768 \<le> n \<Longrightarrow> n < 32768 \<Longrightarrow> int16 n = n"
  unfolding int16_def by (simp add: sint_sbintrunc' signed_take_bit_int_eq_self)

lemma card16_small: "0 \<le> n \<Longrightarrow> n < 65536 \<Longrightarrow> card16 n = n"
  unfolding card16_def by (simp add: uint_word_of_int take_bit_eq_mod)

lemma card8_small: "0 \<le> n \<Longrightarrow> n < 256 \<Longrightarrow> card8 n = n"
  unfolding card8_def by (simp add: uint_word_of_int take_bit_eq_mod)

lemmas xlib_defs = XCreateColormap_def XCreateWindow_def XStoreName_def XMapWindow_def
  XFlush_def XShapeCombineMask_def XCreateGC_def XSetForeground_def XFillRectangle_def
  XDrawString_def printf_def sleep_def XAllocID_def queue_def log_def

lemma createWindow_eq:
  "createWindow root vinfo x y width height p =
     (ClientId (Suc (next_id p)),
      p\<lparr>outbuf := outbuf p @
           [CreateColormap (ClientId (next_id p)) root (vi_visual vinfo) AllocNone,
            CreateWindow (ClientId (Suc (next_id p))) root (int16 x) (int16 y) (card16 width)
              (card16 height) 0 (card8 (vi_depth vinfo)) InputOutput (vi_visual vinfo)
              {CWColormap, CWBackPixel, CWBorderPixel, CWOverrideRedirect}
              \<lparr>colormap = ClientId (next_id p), background_pixel = 0, border_pixel = 0,
                 override_redirect = True\<rparr>,
            ChangeProperty (ClientId (Suc (next_id p))) ''WM_NAME'' ''C ClickThrough Test''],
        next_id := Suc (Suc (next_id p)),
        history := history p @
           [Queued (CreateColormap (ClientId (next_id p)) root (vi_visual vinfo) AllocNone),
            Queued (CreateWindow (ClientId (Suc (next_id p))) root (int16 x) (int16 y) (card16 width)
              (card16 height) 0 (card8 (vi_depth vinfo)) InputOutput (vi_visual vinfo)
              {CWColormap, CWBackPixel, CWBorderPixel, CWOverrideRedirect}
              \<lparr>colormap = ClientId (next_id p), background_pixel = 0, border_pixel = 0,
                 override_redirect = True\<rparr>),
            Queued (ChangeProperty (ClientId (Suc (next_id p))) ''WM_NAME'' ''C ClickThrough Test'')]\<rparr>)"
  by (simp add: createWindow_def xlib_defs card16_small Let_def)

lemma show_window_eq:
  "show_window x y width height window p =
     p\<lparr>server := deliver_all (outbuf p @ [MapWindow window]) (server p),
       outbuf := [],
       history := history p @
         [Queued (MapWindow window), Flushed,
          Printf ''Window created at (%d, %d) size %dx%d\<newline>''
            [ArgInt x, ArgInt y, ArgInt width, ArgInt height],
          Printf ''Window ID: 0x%lx\<newline>'' [ArgXid window],
          Slept 1]\<rparr>"
  by (simp add: show_window_def xlib_defs)

lemma setClickThrough_eq:
  "setClickThrough window p =
     p\<lparr>server := deliver_all
         (outbuf p @ (if srv_shape (server p) then [ShapeMask window ShapeInput 0 0 None ShapeSet] else []))
         (server p),
       outbuf := [],
       history := history p @
         [Printf ''Applying click-through with Shape extension...\<newline>'' [],
          if srv_shape (server p) then Queued (ShapeMask window ShapeInput 0 0 None ShapeSet)
          else MissingExtension ''SHAPE'',
          Flushed,
          Printf ''Click-through applied - input shape removed\<newline>'' []]\<rparr>"
  by (simp add: setClickThrough_def xlib_defs int16_small)

lemma paint_eq:
  "paint window width height p =
     p\<lparr>server := deliver_all
         (outbuf p @
          [CreateGC (ClientId (next_id p)) window,
           ChangeGC (ClientId (next_id p)) 0xFFFF0000,
           PolyFillRectangle window (ClientId (next_id p)) 0 0 (card16 width) (card16 height),
           ChangeGC (ClientId (next_id p)) 0xFFFFFFFF,
           PolyText8 window (ClientId (next_id p)) 50 100 ''Click Through Test''])
         (server p),
       outbuf := [],
       next_id := Suc (next_id p),
       history := history p @
          [Queued (CreateGC (ClientId (next_id p)) window),
           Queued (ChangeGC (ClientId (next_id p)) 0xFFFF0000),
           Queued (PolyFillRectangle window (ClientId (next_id p)) 0 0 (card16 width) (card16 height)),
           Queued (ChangeGC (ClientId (next_id p)) 0xFFFFFFFF),
           Queued (PolyText8 window (ClientId (next_id p)) 50 100 ''Click Through Test''),
           Flushed]\<rparr>"
  by (simp add: paint_def xlib_defs int16_small Let_def)


lemma find_visual:
  assumes "find (\<lambda>vi. vi_depth vi = 32 \<and> vi_class vi = TrueColor) vs = Some v"
  shows "vi_depth v = 32" and "vi_class v = TrueColor"
    and "find (\<lambda>vi. vi_visual vi = vi_visual v) vs \<noteq> None"
    and "find (\<lambda>vi. vi_visual vi = vi_visual v \<and> vi_depth vi = 32) vs \<noteq> None"
proof -
  from assms have in_vs: "v \<in> set vs" and d: "vi_depth v = 32" and c: "vi_class v = TrueColor"
    by (auto simp: find_Some_iff)
  show "vi_depth v = 32" by (rule d)
  show "vi_class v = TrueColor" by (rule c)
  show "find (\<lambda>vi. vi_visual vi = vi_visual v) vs \<noteq> None"
    using in_vs by (auto simp: find_None_iff)
  show "find (\<lambda>vi. vi_visual vi = vi_visual v \<and> vi_depth vi = 32) vs \<noteq> None"
    using in_vs d by (auto simp: find_None_iff)
qed

lemma selectAlphaVisual_found:
  "find (\<lambda>vi. vi_depth vi = 32 \<and> vi_class vi = TrueColor) (srv_visuals (server p)) = Some v \<Longrightarrow>
   selectAlphaVisual p screen vinfo0 = v"
  by (simp add: selectAlphaVisual_def XMatchVisualInfo_def)

lemma selectAlphaVisual_missing:
  "find (\<lambda>vi. vi_depth vi = 32 \<and> vi_class vi = TrueColor) (srv_visuals (server p)) = None \<Longrightarrow>
   selectAlphaVisual p screen vinfo0 = vinfo0"
  by (simp add: selectAlphaVisual_def XMatchVisualInfo_def)

lemma geometry_eq:
  "geometry p screen = (uint (srv_width (server p)) - 250, 50, 200, 200)"
  by (simp add: geometry_def DisplayWidth_def Let_def)

subsection \<open>The server after each batch\<close>

lemma created:
  assumes "find (\<lambda>vi. vi_depth vi = 32 \<and> vi_class vi = TrueColor) (env_visuals env) = Some v"
  shows "deliver_all
      [CreateColormap (ClientId 0) (ServerId 0) (vi_visual v) AllocNone,
       CreateWindow (ClientId 1) (ServerId 0) x 50 200 200 0 32 InputOutput (vi_visual v)
         {CWColormap, CWBackPixel, CWBorderPixel, CWOverrideRedirect}
         \<lparr>colormap = ClientId 0, background_pixel = 0, border_pixel = 0, override_redirect = True\<rparr>,
       ChangeProperty (ClientId 1) ''WM_NAME'' ''C ClickThrough Test'',
       MapWindow (ClientId 1)] (boot env) =
    (boot env)\<lparr>srv_windows := [ServerId 0 \<mapsto> root_window env, ClientId 1 \<mapsto>
        \<lparr>w_parent = Some (ServerId 0), w_x = x, w_y = 50, w_width = 200, w_height = 200,
         w_border_width = 0, w_depth = 32, w_class = InputOutput, w_visual = vi_visual v,
         w_colormap = Some (ClientId 0), w_background = Some 0, w_border = Some 0,
         w_override_redirect = True, w_mapped = True, w_name = Some ''C ClickThrough Test'',
         w_bounding = None, w_clip = None, w_input = None, w_pixels = (\<lambda>_. 0)\<rparr>],
      srv_colormaps := [ServerId 1 \<mapsto> env_root_visual env, ClientId 0 \<mapsto> vi_visual v]\<rparr>"
proof -
  note fv = find_visual [OF assms]
  have 1: "deliver (CreateColormap (ClientId 0) (ServerId 0) (vi_visual v) AllocNone) (boot env) =
      (boot env)\<lparr>srv_colormaps := [ServerId 1 \<mapsto> env_root_visual env, ClientId 0 \<mapsto> vi_visual v]\<rparr>"
    using fv(3) by (auto simp: create_colormap_def boot_def split: option.splits)
  from fv(4) obtain vi where 2: "find (\<lambda>vi. vi_visual vi = vi_visual v \<and> vi_depth vi = 32) (env_visuals env) = Some vi"
    by blast
  show ?thesis
    unfolding deliver_all_Cons deliver_all_Nil 1
    by (simp add: 2 boot_def create_window_def new_window_def change_property_def map_window_def)
qed


lemmas server_defs = create_colormap_def create_window_def change_property_def map_window_def
  shape_mask_def create_gc_def change_gc_def draw_def fail_def

lemma deliver_shape: "srv_shape (deliver r s) = srv_shape s"
  by (cases r) (simp_all add: server_defs Let_def split: option.splits)

lemma deliver_all_shape: "srv_shape (deliver_all rs s) = srv_shape s"
  by (induction rs arbitrary: s) (simp_all add: deliver_all_Nil deliver_all_Cons deliver_shape)

lemma deliver_width: "srv_width (deliver r s) = srv_width s"
  by (cases r) (simp_all add: server_defs Let_def split: option.splits)

lemma deliver_all_width: "srv_width (deliver_all rs s) = srv_width s"
  by (induction rs arbitrary: s) (simp_all add: deliver_all_Nil deliver_all_Cons deliver_width)

lemma keep_alive_next_id: "next_id (fst (keep_alive n p)) = next_id p"
  by (induction n arbitrary: p) (simp_all add: sleep_def log_def)

lemma start_simps:
  "server (start env) = boot env" "outbuf (start env) = []" "next_id (start env) = 0"
  "history (start env) = []"
  by (simp_all add: start_def)

lemma boot_simps:
  "srv_shape (boot env) = env_shape env" "srv_width (boot env) = env_width env"
  "srv_visuals (boot env) = env_visuals env" "srv_redirect (boot env) = env_wm env"
  "srv_font (boot env) = env_font env"
  by (simp_all add: boot_def)

lemma main_no_display:
  "\<not> env_display env \<Longrightarrow>
   main env vinfo0 n = (log (Stderr ''Cannot open display\<newline>'') (start env), Some 1)"
  by (simp add: main_def XOpenDisplay_def)

lemma main_status: "env_display env \<Longrightarrow> snd (main env vinfo0 n) = None"
  by (simp add: main_def XOpenDisplay_def Let_def split_def keep_alive_snd)

lemma main_outbuf: "env_display env \<Longrightarrow> outbuf (fst (main env vinfo0 n)) = []"
  by (simp add: main_def XOpenDisplay_def Let_def split_def keep_alive_outbuf printf_def log_def paint_eq)

lemma main_server:
  assumes "env_display env"
  shows "server (fst (main env vinfo0 n)) =
    deliver_all
      [CreateGC (ClientId 2) (ClientId 1),
       ChangeGC (ClientId 2) 0xFFFF0000,
       PolyFillRectangle (ClientId 1) (ClientId 2) 0 0 200 200,
       ChangeGC (ClientId 2) 0xFFFFFFFF,
       PolyText8 (ClientId 1) (ClientId 2) 50 100 ''Click Through Test'']
      (deliver_all
        (if env_shape env then [ShapeMask (ClientId 1) ShapeInput 0 0 None ShapeSet] else [])
        (deliver_all
          [CreateColormap (ClientId 0) (ServerId 0)
             (vi_visual (selectAlphaVisual (start env) 0 vinfo0)) AllocNone,
           CreateWindow (ClientId 1) (ServerId 0) (int16 (uint (env_width env) - 250)) 50 200 200 0
             (card8 (vi_depth (selectAlphaVisual (start env) 0 vinfo0))) InputOutput
             (vi_visual (selectAlphaVisual (start env) 0 vinfo0))
             {CWColormap, CWBackPixel, CWBorderPixel, CWOverrideRedirect}
             \<lparr>colormap = ClientId 0, background_pixel = 0, border_pixel = 0,
                override_redirect = True\<rparr>,
           ChangeProperty (ClientId 1) ''WM_NAME'' ''C ClickThrough Test'',
           MapWindow (ClientId 1)]
          (boot env)))"
  using assms
  by (simp add: main_def XOpenDisplay_def DefaultScreen_def RootWindow_def Let_def split_def
      keep_alive_server printf_def log_def geometry_eq createWindow_eq show_window_eq
      setClickThrough_eq paint_eq deliver_all_shape
      int16_small card16_small start_simps boot_simps numeral_2_eq_2)

lemma main_history:
  assumes "env_display env"
  shows "history (fst (main env vinfo0 n)) =
    [Queued (CreateColormap (ClientId 0) (ServerId 0)
        (vi_visual (selectAlphaVisual (start env) 0 vinfo0)) AllocNone),
     Queued (CreateWindow (ClientId 1) (ServerId 0) (int16 (uint (env_width env) - 250)) 50 200 200 0
        (card8 (vi_depth (selectAlphaVisual (start env) 0 vinfo0))) InputOutput
        (vi_visual (selectAlphaVisual (start env) 0 vinfo0))
        {CWColormap, CWBackPixel, CWBorderPixel, CWOverrideRedirect}
        \<lparr>colormap = ClientId 0, background_pixel = 0, border_pixel = 0,
           override_redirect = True\<rparr>),
     Queued (ChangeProperty (ClientId 1) ''WM_NAME'' ''C ClickThrough Test''),
     Queued (MapWindow (ClientId 1)),
     Flushed,
     Printf ''Window created at (%d, %d) size %dx%d\<newline>''
       [ArgInt (uint (env_width env) - 250), ArgInt 50, ArgInt 200, ArgInt 200],
     Printf ''Window ID: 0x%lx\<newline>'' [ArgXid (ClientId 1)],
     Slept 1,
     Printf ''Applying click-through with Shape extension...\<newline>'' [],
     if env_shape env then Queued (ShapeMask (ClientId 1) ShapeInput 0 0 None ShapeSet)
     else MissingExtension ''SHAPE'',
     Flushed,
     Printf ''Click-through applied - input shape removed\<newline>'' [],
     Queued (CreateGC (ClientId 2) (ClientId 1)),
     Queued (ChangeGC (ClientId 2) 0xFFFF0000),
     Queued (PolyFillRectangle (ClientId 1) (ClientId 2) 0 0 200 200),
     Queued (ChangeGC (ClientId 2) 0xFFFFFFFF),
     Queued (PolyText8 (ClientId 1) (ClientId 2) 50 100 ''Click Through Test''),
     Flushed,
     Printf ''Window should be visible and click-through\<newline>'' [],
     Printf ''Press Ctrl+C to exit\<newline>'' []] @ replicate n (Slept 1)"
  using assms
  by (simp add: main_def XOpenDisplay_def DefaultScreen_def RootWindow_def Let_def split_def
      keep_alive_history printf_def log_def geometry_eq createWindow_eq show_window_eq
      setClickThrough_eq paint_eq deliver_all_shape
      int16_small card16_small start_simps boot_simps numeral_2_eq_2)


lemma take_bit_pixel: "take_bit (nat 32) (w :: 32 word) = w"
  by (simp add: take_bit_word_eq_self)

lemma main_final:
  assumes "env_display env"
    and "find (\<lambda>vi. vi_depth vi = 32 \<and> vi_class vi = TrueColor) (env_visuals env) = Some v"
  shows "server (fst (main env vinfo0 n)) =
    (boot env)\<lparr>srv_windows := [ServerId 0 \<mapsto> root_window env, ClientId 1 \<mapsto>
        \<lparr>w_parent = Some (ServerId 0), w_x = int16 (uint (env_width env) - 250), w_y = 50,
         w_width = 200, w_height = 200,
         w_border_width = 0, w_depth = 32, w_class = InputOutput, w_visual = vi_visual v,
         w_colormap = Some (ClientId 0), w_background = Some 0, w_border = Some 0,
         w_override_redirect = True, w_mapped = True, w_name = Some ''C ClickThrough Test'',
         w_bounding = None, w_clip = None, w_input = None,
         w_pixels = (\<lambda>p. if p \<in> translate 50 100 (env_font env ''Click Through Test'') \<and>
                              p \<in> rectangle 0 0 200 200
                           then 0xFFFFFFFF
                           else if p \<in> rectangle 0 0 200 200 then 0xFFFF0000 else 0)\<rparr>],
      srv_colormaps := [ServerId 1 \<mapsto> env_root_visual env, ClientId 0 \<mapsto> vi_visual v],
      srv_gcs := [ClientId 2 \<mapsto> \<lparr>gc_depth = 32, gc_foreground = 0xFFFFFFFF\<rparr>]\<rparr>"
proof -
  have sel: "selectAlphaVisual (start env) 0 vinfo0 = v"
    using assms(2) by (simp add: selectAlphaVisual_found start_simps boot_simps)
  have d: "card8 (vi_depth v) = 32"
    using find_visual(1) [OF assms(2)] by (simp add: card8_small)
  show ?thesis
    unfolding main_server [OF assms(1)] sel d created [OF assms(2)]
    by (cases "env_shape env")
      (simp_all add: deliver_all_Cons deliver_all_Nil shape_mask_def set_shape_def boot_def
        create_gc_def change_gc_def draw_def effective_clip_def default_clip_def
        effective_bounding_def default_bounding_def rectangle_def take_bit_pixel
        cong: if_cong)
qed

subsection \<open>What the graphics requests leave alone\<close>

lemma default_bounding_upd:
  "default_bounding (w\<lparr>w_pixels := f\<rparr>) = default_bounding w"
  "default_bounding (w\<lparr>w_input := r\<rparr>) = default_bounding w"
  by (simp_all add: default_bounding_def)

lemma effective_bounding_upd:
  "effective_bounding (w\<lparr>w_pixels := f\<rparr>) = effective_bounding w"
  "effective_bounding (w\<lparr>w_input := r\<rparr>) = effective_bounding w"
  by (simp_all add: effective_bounding_def default_bounding_upd split: option.splits)

lemma effective_input_pixels:
  "effective_input (w\<lparr>w_pixels := f\<rparr>) = effective_input w"
  by (simp add: effective_input_def default_bounding_upd effective_bounding_upd
      split: option.splits)

lemmas regions_pixels = default_bounding_upd effective_bounding_upd effective_input_pixels

lemma draw_pointer: "pointer_delivered (draw d g shape s) wid pt = pointer_delivered s wid pt"
  by (auto simp: draw_def fail_def pointer_delivered_def regions_pixels split: option.splits)

lemma draw_visible: "visible_region (draw d g shape s) wid = visible_region s wid"
  by (auto simp: draw_def fail_def visible_region_def regions_pixels split: option.splits)

lemma draw_input:
  "map_option w_input (srv_windows (draw d g shape s) wid) = map_option w_input (srv_windows s wid)"
  by (simp add: draw_def fail_def split: option.splits)

lemma gc_windows:
  "srv_windows (create_gc gid d s) = srv_windows s"
  "srv_windows (change_gc gid fg s) = srv_windows s"
  by (simp_all add: create_gc_def change_gc_def fail_def split: option.splits)

lemma gc_pointer:
  "pointer_delivered (create_gc gid d s) wid pt = pointer_delivered s wid pt"
  "pointer_delivered (change_gc gid fg s) wid pt = pointer_delivered s wid pt"
  by (simp_all add: pointer_delivered_def gc_windows)

lemma gc_visible:
  "visible_region (create_gc gid d s) wid = visible_region s wid"
  "visible_region (change_gc gid fg s) wid = visible_region s wid"
  by (simp_all add: visible_region_def gc_windows)

lemma paint_pointer:
  "pointer_delivered (server (paint window width height p)) wid pt =
   pointer_delivered (deliver_all (outbuf p) (server p)) wid pt"
  by (simp add: paint_eq deliver_all_append deliver_all_Cons deliver_all_Nil draw_pointer gc_pointer)

lemma paint_visible:
  "visible_region (server (paint window width height p)) wid =
   visible_region (deliver_all (outbuf p) (server p)) wid"
  by (simp add: paint_eq deliver_all_append deliver_all_Cons deliver_all_Nil draw_visible gc_visible)

lemma paint_input:
  "map_option w_input (srv_windows (server (paint window width height p)) wid) =
   map_option w_input (srv_windows (deliver_all (outbuf p) (server p)) wid)"
  by (simp add: paint_eq deliver_all_append deliver_all_Cons deliver_all_Nil draw_input gc_windows)

subsection \<open>The shape request of \<open>setClickThrough\<close>\<close>

lemma effective_bounding_subset: "effective_bounding w \<subseteq> default_bounding w"
  by (simp add: effective_bounding_def split: option.splits)

lemma shape_none_pointer:
  "pointer_delivered (shape_mask window ShapeInput xoff yoff None op s) window pt =
     (if srv_shape s then pt \<in> visible_region s window else pointer_delivered s window pt)"
proof (cases "srv_windows s window")
  case None
  then show ?thesis
    by (simp add: shape_mask_def fail_def pointer_delivered_def visible_region_def)
next
  case (Some w)
  have "effective_input (w\<lparr>w_input := None\<rparr>) = effective_bounding w"
    using effective_bounding_subset [of w]
    by (auto simp: effective_input_def default_bounding_upd effective_bounding_upd)
  with Some show ?thesis
    by (simp add: shape_mask_def fail_def pointer_delivered_def visible_region_def set_shape_def)
qed

lemma shape_input_visible:
  "visible_region (shape_mask window ShapeInput xoff yoff src op s) wid = visible_region s wid"
  by (auto simp: shape_mask_def fail_def visible_region_def set_shape_def Let_def
      effective_bounding_upd split: option.splits)

lemma shape_input_bounding:
  "map_option w_bounding (srv_windows (shape_mask window ShapeInput xoff yoff src op s) wid) =
   map_option w_bounding (srv_windows s wid)"
  by (simp add: shape_mask_def fail_def set_shape_def Let_def split: option.splits)

lemma shape_none_twice:
  "srv_windows (shape_mask window k xoff yoff None op (shape_mask window k xoff yoff None op s)) =
   srv_windows (shape_mask window k xoff yoff None op s)"
  by (cases k) (simp_all add: shape_mask_def fail_def set_shape_def split: option.splits)

lemma setClickThrough_server:
  "server (setClickThrough window p) =
     (if srv_shape (server p)
      then shape_mask window ShapeInput 0 0 None ShapeSet (deliver_all (outbuf p) (server p))
      else deliver_all (outbuf p) (server p))"
  by (simp add: setClickThrough_eq deliver_all_append deliver_all_Cons deliver_all_Nil)

lemma setClickThrough_outbuf: "outbuf (setClickThrough window p) = []"
  by (simp add: setClickThrough_eq)

lemma setClickThrough_shape: "srv_shape (server (setClickThrough window p)) = srv_shape (server p)"
  by (simp add: setClickThrough_eq deliver_all_shape)

lemma shape_mask_shape: "srv_shape (shape_mask window k xoff yoff src op s) = srv_shape s"
  using deliver_shape [of "ShapeMask window k xoff yoff src op" s] by simp

lemma setClickThrough_pointer:
  "pointer_delivered (server (setClickThrough window p)) window pt =
     (if srv_shape (server p)
      then pt \<in> visible_region (deliver_all (outbuf p) (server p)) window
      else pointer_delivered (deliver_all (outbuf p) (server p)) window pt)"
  by (simp add: setClickThrough_server shape_none_pointer deliver_all_shape)

lemma setClickThrough_visible:
  "visible_region (server (setClickThrough window p)) wid =
   visible_region (deliver_all (outbuf p) (server p)) wid"
  by (simp add: setClickThrough_server shape_input_visible)

lemma setClickThrough_twice:
  "srv_windows (server (setClickThrough window (setClickThrough window p))) =
   srv_windows (server (setClickThrough window p))"
  by (simp add: setClickThrough_server [of window "setClickThrough window p"]
      setClickThrough_outbuf setClickThrough_shape deliver_all_Nil)
    (simp add: setClickThrough_server shape_none_twice)


subsection \<open>The overlay window at the end of \<open>main\<close>\<close>

lemma main_overlay:
  assumes "env_display env"
    and "find (\<lambda>vi. vi_depth vi = 32 \<and> vi_class vi = TrueColor) (env_visuals env) = Some v"
  shows "srv_windows (server (fst (main env vinfo0 n))) (ClientId (Suc 0)) = Some
        \<lparr>w_parent = Some (ServerId 0), w_x = int16 (uint (env_width env) - 250), w_y = 50,
         w_width = 200, w_height = 200,
         w_border_width = 0, w_depth = 32, w_class = InputOutput, w_visual = vi_visual v,
         w_colormap = Some (ClientId 0), w_background = Some 0, w_border = Some 0,
         w_override_redirect = True, w_mapped = True, w_name = Some ''C ClickThrough Test'',
         w_bounding = None, w_clip = None, w_input = None,
         w_pixels = (\<lambda>p. if p \<in> translate 50 100 (env_font env ''Click Through Test'') \<and>
                              p \<in> rectangle 0 0 200 200
                           then 0xFFFFFFFF
                           else if p \<in> rectangle 0 0 200 200 then 0xFFFF0000 else 0)\<rparr>"
  by (simp add: main_final [OF assms])

lemma main_pointer:
  assumes "env_display env"
    and "find (\<lambda>vi. vi_depth vi = 32 \<and> vi_class vi = TrueColor) (env_visuals env) = Some v"
  shows "pointer_delivered (server (fst (main env vinfo0 n))) (ClientId (Suc 0)) pt =
         (pt \<in> rectangle 0 0 200 200)"
  by (simp add: pointer_delivered_def main_overlay [OF assms] effective_input_def
      effective_bounding_def default_bounding_def)

lemma main_visible:
  assumes "env_display env"
    and "find (\<lambda>vi. vi_depth vi = 32 \<and> vi_class vi = TrueColor) (env_visuals env) = Some v"
  shows "visible_region (server (fst (main env vinfo0 n))) (ClientId (Suc 0)) = rectangle 0 0 200 200"
  by (simp add: visible_region_def main_overlay [OF assms]
      effective_bounding_def default_bounding_def)

lemma main_pixel:
  assumes "env_display env"
    and "find (\<lambda>vi. vi_depth vi = 32 \<and> vi_class vi = TrueColor) (env_visuals env) = Some v"
  shows "pixel_at (server (fst (main env vinfo0 n))) (ClientId (Suc 0)) pt =
     Some (if pt \<in> translate 50 100 (env_font env ''Click Through Test'') \<and>
              pt \<in> rectangle 0 0 200 200
           then 0xFFFFFFFF
           else if pt \<in> rectangle 0 0 200 200 then 0xFFFF0000 else 0)"
  by (simp add: pixel_at_def main_overlay [OF assms])

lemma main_errors:
  assumes "env_display env"
    and "find (\<lambda>vi. vi_depth vi = 32 \<and> vi_class vi = TrueColor) (env_visuals env) = Some v"
  shows "srv_errors (server (fst (main env vinfo0 n))) = []"
    and "srv_map_requests (server (fst (main env vinfo0 n))) = []"
    and "srv_colormaps (server (fst (main env vinfo0 n))) (ClientId 0) = Some (vi_visual v)"
  by (simp_all add: main_final [OF assms] boot_def)

lemma desktop_visual:
  "find (\<lambda>vi. vi_depth vi = 32 \<and> vi_class vi = TrueColor) (env_visuals desktop) =
     Some \<lparr>vi_visual = 118, vi_depth = 32, vi_class = TrueColor\<rparr>"
  by (simp add: desktop_def)

lemma no_shape_visual:
  "find (\<lambda>vi. vi_depth vi = 32 \<and> vi_class vi = TrueColor) (env_visuals no_shape) =
     Some \<lparr>vi_visual = 118, vi_depth = 32, vi_class = TrueColor\<rparr>"
  by (simp add: no_shape_def desktop_def)

lemma no_alpha_visual:
  "find (\<lambda>vi. vi_depth vi = 32 \<and> vi_class vi = TrueColor) (env_visuals no_alpha) = None"
  by (simp add: no_alpha_def desktop_def)

lemma fixtures_display:
  "env_display desktop" "env_display no_shape" "env_display no_alpha"
  "env_shape desktop" "\<not> env_shape no_shape" "env_shape no_alpha"
  "env_width desktop = 1920" "env_width no_shape = 1920" "env_width no_alpha = 1920"
  "env_font desktop = cell_font" "env_font no_shape = cell_font" "env_font no_alpha = cell_font"
  by (simp_all add: desktop_def no_shape_def no_alpha_def)

lemma alpha_values: "alpha 0xFFFF0000 = 0xFF" "alpha 0xFFFFFFFF = 0xFF" "alpha 0 = 0"
  by (simp_all add: alpha_def drop_bit_eq_div)

section \<open>Paint and the input region\<close>

text \<open>
  Claim C1. Painting leaves the input region of every window as it was: after
  \<open>paint\<close> a pointer event is delivered to a window exactly when it was delivered with
  the requests queued before \<open>paint\<close> processed. The claim goes on to say that after
  \<open>setClickThrough\<close> the region is empty and stays so; on the display \<open>desktop\<close> the
  run of \<open>main\<close> ends with the pixel at (10, 10) of the overlay opaque red and a pointer
  event at that position delivered to the overlay. What paint preserves is an input region
  that \<open>setClickThrough\<close> never emptied.
\<close>

theorem painted_overlay_takes_pointer:
  "pointer_delivered (server (paint window width height p)) wid pt =
     pointer_delivered (deliver_all (outbuf p) (server p)) wid pt
   \<and> pixel_at (server (fst (main desktop vinfo0 n))) (ClientId 1) (10, 10) = Some 0xFFFF0000
   \<and> alpha 0xFFFF0000 = 0xFF
   \<and> pointer_delivered (server (fst (main desktop vinfo0 n))) (ClientId 1) (10, 10)"
  by (simp add: paint_pointer main_pixel [OF fixtures_display(1) desktop_visual]
      main_pointer [OF fixtures_display(1) desktop_visual] alpha_values
      rectangle_def translate_def fixtures_display cell_font_def)


section \<open>What \<open>setClickThrough\<close> does to the window's regions\<close>

lemma main_regions:
  assumes "env_display env"
    and "find (\<lambda>vi. vi_depth vi = 32 \<and> vi_class vi = TrueColor) (env_visuals env) = Some v"
  shows "(case srv_windows (server (fst (main env vinfo0 n))) (ClientId (Suc 0)) of
            None \<Rightarrow> False
          | Some w \<Rightarrow> w_input w = None \<and> w_bounding w = None
              \<and> effective_input w = rectangle 0 0 200 200
              \<and> effective_bounding w = rectangle 0 0 200 200)"
  by (simp add: main_overlay [OF assms] effective_input_def effective_bounding_def
      default_bounding_def)

lemma setClickThrough_bounding:
  "map_option w_bounding (srv_windows (server (setClickThrough window p)) wid) =
   map_option w_bounding (srv_windows (deliver_all (outbuf p) (server p)) wid)"
  by (simp add: setClickThrough_server shape_input_bounding)

text \<open>
  Claim C2. \<open>setClickThrough\<close> makes one shape request, on the input kind; the bounding
  shape and with it the visible region of every window are untouched. The request carries
  no bitmap, which removes the client input region instead of setting an empty one: with
  the extension present, a pointer event is delivered to the window after
  \<open>setClickThrough\<close> exactly where the window is visible. At the end of \<open>main\<close> on
  \<open>desktop\<close> the overlay has no client input region, and its effective input region is
  the whole 200x200 rectangle, as is its bounding region.
\<close>

theorem setClickThrough_leaves_input_enabled:
  "pointer_delivered (server (setClickThrough window p)) window pt =
     (if srv_shape (server p)
      then pt \<in> visible_region (deliver_all (outbuf p) (server p)) window
      else pointer_delivered (deliver_all (outbuf p) (server p)) window pt)
   \<and> visible_region (server (setClickThrough window p)) wid =
       visible_region (deliver_all (outbuf p) (server p)) wid
   \<and> map_option w_bounding (srv_windows (server (setClickThrough window p)) wid) =
       map_option w_bounding (srv_windows (deliver_all (outbuf p) (server p)) wid)
   \<and> (case srv_windows (server (fst (main desktop vinfo0 n))) (ClientId 1) of
         None \<Rightarrow> False
       | Some w \<Rightarrow> w_input w = None \<and> w_bounding w = None
           \<and> effective_input w = rectangle 0 0 200 200
           \<and> effective_bounding w = rectangle 0 0 200 200
           \<and> (10, 10) \<in> effective_input w)"
  using main_regions [OF fixtures_display(1) desktop_visual, of vinfo0 n]
  by (simp add: setClickThrough_pointer setClickThrough_visible setClickThrough_bounding
      rectangle_def split: option.splits)

lemma main_process:
  assumes "env_display env"
  shows "outbuf (fst (main env vinfo0 n)) = []"
    and "srv_shape (server (fst (main env vinfo0 n))) = env_shape env"
  using assms
  by (simp_all add: main_outbuf main_server deliver_all_shape boot_simps)

text \<open>
  Claim C8. Applying \<open>setClickThrough\<close> twice leaves every window as one application
  does. The input region it leaves is not empty: after two more applications at the end of
  \<open>main\<close> on \<open>desktop\<close>, a pointer event at (10, 10) is still delivered to the overlay.
\<close>

theorem setClickThrough_twice_same_still_enabled:
  "srv_windows (server (setClickThrough window (setClickThrough window p))) =
   srv_windows (server (setClickThrough window p))
   \<and> pointer_delivered
       (server (setClickThrough (ClientId 1)
                 (setClickThrough (ClientId 1) (fst (main desktop vinfo0 n)))))
       (ClientId 1) (10, 10)"
  by (simp add: setClickThrough_twice setClickThrough_pointer setClickThrough_outbuf
      setClickThrough_shape setClickThrough_visible deliver_all_Nil
      main_process [OF fixtures_display(1)] fixtures_display
      main_visible [OF fixtures_display(1) desktop_visual] rectangle_def)

section \<open>A display without a 32-bit true-colour visual\<close>

text \<open>
  Claim C3. On \<open>no_alpha\<close>, \<open>XMatchVisualInfo\<close> returns status 0 and leaves
  \<open>vinfo\<close> as it was; \<open>main\<close> does not look at the status, does not exit, and its
  first two requests create a colormap and a window from the visual and depth that the
  uninitialised \<open>vinfo\<close> happened to hold. (In C the field \<open>vinfo.visual\<close> is a
  pointer that \<open>XCreateColormap\<close> dereferences; the model, which keeps the visual's
  identifier in its place, shows the well-behaved case of that undefined behaviour.)
\<close>

theorem missing_alpha_visual_goes_unnoticed:
  "fst (XMatchVisualInfo (start no_alpha) 0 32 TrueColor vinfo0) = 0
   \<and> selectAlphaVisual (start no_alpha) 0 vinfo0 = vinfo0
   \<and> snd (main no_alpha vinfo0 n) = None
   \<and> take 2 (history (fst (main no_alpha vinfo0 n))) =
       [Queued (CreateColormap (ClientId 0) (ServerId 0) (vi_visual vinfo0) AllocNone),
        Queued (CreateWindow (ClientId 1) (ServerId 0) 1670 50 200 200 0 (card8 (vi_depth vinfo0))
          InputOutput (vi_visual vinfo0)
          {CWColormap, CWBackPixel, CWBorderPixel, CWOverrideRedirect}
          \<lparr>colormap = ClientId 0, background_pixel = 0, border_pixel = 0,
             override_redirect = True\<rparr>)]"
proof -
  have sel: "selectAlphaVisual (start no_alpha) 0 vinfo0 = vinfo0"
    using no_alpha_visual by (simp add: selectAlphaVisual_missing start_simps boot_simps)
  have st: "fst (XMatchVisualInfo (start no_alpha) 0 32 TrueColor vinfo0) = 0"
    using no_alpha_visual by (simp add: XMatchVisualInfo_def start_simps boot_simps)
  show ?thesis
    by (simp add: st sel main_status [OF fixtures_display(3)]
        main_history [OF fixtures_display(3)] fixtures_display int16_small)
qed


section \<open>Geometry\<close>

lemma main_printed_geometry:
  assumes "env_display env"
  shows "Printf ''Window created at (%d, %d) size %dx%d\<newline>''
           [ArgInt (uint (env_width env) - 250), ArgInt 50, ArgInt 200, ArgInt 200]
         \<in> set (history (fst (main env vinfo0 n)))"
  by (simp add: main_history [OF assms])

text \<open>
  Claim C7. The local variables of lines 35-37 are \<open>x\<close> = display width - 250,
  \<open>y\<close> = 50, \<open>width\<close> = \<open>height\<close> = 200, where the display width is that of the
  default screen (a CARD16, so the C subtraction cannot overflow); the status line prints
  them, and the window the server creates has them, \<open>x\<close> as the INT16 the request
  carries (the same number on every screen up to 33017 pixels wide).
\<close>

theorem overlay_geometry:
  assumes "env_display env"
    and "find (\<lambda>vi. vi_depth vi = 32 \<and> vi_class vi = TrueColor) (env_visuals env) = Some v"
  shows "DisplayWidth (start env) (DefaultScreen (start env)) = uint (env_width env)
    \<and> geometry (start env) (DefaultScreen (start env)) = (uint (env_width env) - 250, 50, 200, 200)
    \<and> - 250 \<le> uint (env_width env) - 250 \<and> uint (env_width env) - 250 < 65536
    \<and> Printf ''Window created at (%d, %d) size %dx%d\<newline>''
           [ArgInt (uint (env_width env) - 250), ArgInt 50, ArgInt 200, ArgInt 200]
         \<in> set (history (fst (main env vinfo0 n)))
    \<and> (\<exists>w. srv_windows (server (fst (main env vinfo0 n))) (ClientId 1) = Some w
          \<and> w_x w = int16 (uint (env_width env) - 250) \<and> w_y w = 50
          \<and> w_width w = 200 \<and> w_height w = 200)
    \<and> (uint (env_width env) \<le> 33017 \<longrightarrow>
          int16 (uint (env_width env) - 250) = uint (env_width env) - 250)"
proof -
  have lo: "0 \<le> uint (env_width env)" by simp
  have hi: "uint (env_width env) < 65536"
    using uint_bounded [of "env_width env"] by simp
  from lo have "uint (env_width env) \<le> 33017 \<longrightarrow>
      int16 (uint (env_width env) - 250) = uint (env_width env) - 250"
    by (simp add: int16_small)
  with hi show ?thesis
    by (simp add: DisplayWidth_def geometry_eq start_simps boot_simps
        main_printed_geometry [OF assms(1)] main_overlay [OF assms])
qed

theorem overlay_geometry_witness:
  "env_display desktop
   \<and> find (\<lambda>vi. vi_depth vi = 32 \<and> vi_class vi = TrueColor) (env_visuals desktop) =
       Some \<lparr>vi_visual = 118, vi_depth = 32, vi_class = TrueColor\<rparr>
   \<and> geometry (start desktop) (DefaultScreen (start desktop)) = (1670, 50, 200, 200)
   \<and> (\<exists>w. srv_windows (server (fst (main desktop stale 0))) (ClientId 1) = Some w
         \<and> w_x w = 1670 \<and> w_y w = 50 \<and> w_width w = 200 \<and> w_height w = 200)"
  using overlay_geometry [OF fixtures_display(1) desktop_visual, of stale 0]
  by (simp add: fixtures_display desktop_visual int16_small)

section \<open>Flushes\<close>

lemma batches_sleeps: "batches (replicate n (Slept 1)) cur = ([], cur)"
  by (induction n) simp_all

lemma batches_append:
  "batches (es @ es') cur =
     (fst (batches es cur) @ fst (batches es' (snd (batches es cur))),
      snd (batches es' (snd (batches es cur))))"
  by (induction es cur rule: batches.induct) simp_all

text \<open>
  Claim C9. Cut at its flushes, the history of \<open>main\<close> has three batches: colormap,
  window, name and map; the shape request (none when the library finds no extension); and
  the five requests of paint. Nothing is left in the output buffer.
\<close>

theorem requests_flushed_after_each_part:
  assumes "env_display env"
  shows "\<exists>x d v. batches (history (fst (main env vinfo0 n))) [] =
     ([[CreateColormap (ClientId 0) (ServerId 0) v AllocNone,
        CreateWindow (ClientId 1) (ServerId 0) x 50 200 200 0 d InputOutput v
          {CWColormap, CWBackPixel, CWBorderPixel, CWOverrideRedirect}
          \<lparr>colormap = ClientId 0, background_pixel = 0, border_pixel = 0,
             override_redirect = True\<rparr>,
        ChangeProperty (ClientId 1) ''WM_NAME'' ''C ClickThrough Test'',
        MapWindow (ClientId 1)],
       if env_shape env then [ShapeMask (ClientId 1) ShapeInput 0 0 None ShapeSet] else [],
       [CreateGC (ClientId 2) (ClientId 1),
        ChangeGC (ClientId 2) 0xFFFF0000,
        PolyFillRectangle (ClientId 1) (ClientId 2) 0 0 200 200,
        ChangeGC (ClientId 2) 0xFFFFFFFF,
        PolyText8 (ClientId 1) (ClientId 2) 50 100 ''Click Through Test'']],
      [])
    \<and> outbuf (fst (main env vinfo0 n)) = []"
  unfolding main_history [OF assms] batches_append batches_sleeps
  by (simp add: main_outbuf [OF assms])

theorem requests_flushed_after_each_part_witness:
  "env_display desktop
   \<and> (\<exists>x d v. batches (history (fst (main desktop stale 2))) [] =
     ([[CreateColormap (ClientId 0) (ServerId 0) v AllocNone,
        CreateWindow (ClientId 1) (ServerId 0) x 50 200 200 0 d InputOutput v
          {CWColormap, CWBackPixel, CWBorderPixel, CWOverrideRedirect}
          \<lparr>colormap = ClientId 0, background_pixel = 0, border_pixel = 0,
             override_redirect = True\<rparr>,
        ChangeProperty (ClientId 1) ''WM_NAME'' ''C ClickThrough Test'',
        MapWindow (ClientId 1)],
       [ShapeMask (ClientId 1) ShapeInput 0 0 None ShapeSet],
       [CreateGC (ClientId 2) (ClientId 1),
        ChangeGC (ClientId 2) 0xFFFF0000,
        PolyFillRectangle (ClientId 1) (ClientId 2) 0 0 200 200,
        ChangeGC (ClientId 2) 0xFFFFFFFF,
        PolyText8 (ClientId 1) (ClientId 2) 50 100 ''Click Through Test'']],
      []))
   \<and> outbuf (fst (main desktop stale 2)) = []"
  using requests_flushed_after_each_part [OF fixtures_display(1), of stale 2]
  by (simp add: fixtures_display)


section \<open>The window that is created\<close>

lemma main_create_request:
  assumes "env_display env"
  shows "take 2 (history (fst (main env vinfo0 n))) =
    [Queued (CreateColormap (ClientId 0) (ServerId 0)
        (vi_visual (selectAlphaVisual (start env) 0 vinfo0)) AllocNone),
     Queued (CreateWindow (ClientId 1) (ServerId 0) (int16 (uint (env_width env) - 250)) 50 200 200 0
        (card8 (vi_depth (selectAlphaVisual (start env) 0 vinfo0))) InputOutput
        (vi_visual (selectAlphaVisual (start env) 0 vinfo0))
        {CWColormap, CWBackPixel, CWBorderPixel, CWOverrideRedirect}
        \<lparr>colormap = ClientId 0, background_pixel = 0, border_pixel = 0,
           override_redirect = True\<rparr>)]"
  by (simp add: main_history [OF assms])

text \<open>
  Claim C6. When the screen has a 32-bit true-colour visual, the overlay window has a
  colormap of that visual, depth 32, background pixel 0 (alpha 0), border width 0 and
  override-redirect set; it is mapped without a map request reaching the window manager,
  whether or not one is running.
\<close>

theorem overlay_attributes:
  assumes "env_display env"
    and "find (\<lambda>vi. vi_depth vi = 32 \<and> vi_class vi = TrueColor) (env_visuals env) = Some v"
  shows "(\<exists>w cmap bg. srv_windows (server (fst (main env vinfo0 n))) (ClientId 1) = Some w
          \<and> w_colormap w = Some cmap
          \<and> srv_colormaps (server (fst (main env vinfo0 n))) cmap = Some (vi_visual v)
          \<and> w_visual w = vi_visual v \<and> w_depth w = 32 \<and> vi_depth v = 32
          \<and> vi_class v = TrueColor
          \<and> w_background w = Some bg \<and> alpha bg = 0
          \<and> w_border_width w = 0
          \<and> w_override_redirect w
          \<and> w_mapped w)
    \<and> srv_map_requests (server (fst (main env vinfo0 n))) = []"
  using find_visual(1,2) [OF assms(2)]
  by (simp add: main_overlay [OF assms] main_errors [OF assms] alpha_values)

theorem overlay_attributes_witness:
  "env_display desktop
   \<and> find (\<lambda>vi. vi_depth vi = 32 \<and> vi_class vi = TrueColor) (env_visuals desktop) =
       Some \<lparr>vi_visual = 118, vi_depth = 32, vi_class = TrueColor\<rparr>
   \<and> env_wm desktop
   \<and> (\<exists>w cmap bg. srv_windows (server (fst (main desktop stale 0))) (ClientId 1) = Some w
          \<and> w_colormap w = Some cmap
          \<and> srv_colormaps (server (fst (main desktop stale 0))) cmap = Some 118
          \<and> w_visual w = 118 \<and> w_depth w = 32
          \<and> w_background w = Some bg \<and> alpha bg = 0
          \<and> w_border_width w = 0
          \<and> w_override_redirect w
          \<and> w_mapped w)
   \<and> srv_map_requests (server (fst (main desktop stale 0))) = []"
  using overlay_attributes [OF fixtures_display(1) desktop_visual, of stale 0]
  by (simp add: fixtures_display desktop_visual desktop_def)

text \<open>
  Claim C10. The first two requests of \<open>main\<close> create the colormap on the root window,
  with \<open>AllocNone\<close>, from the visual of \<open>vinfo\<close>, and the window from the same visual
  with that colormap in its attributes; this holds for whatever \<open>vinfo\<close> contains. When
  the screen has a 32-bit true-colour visual, the server finds the window's colormap to be
  of the window's visual, and no request of \<open>main\<close> ends in an error.
\<close>

theorem colormap_matches_window_visual:
  assumes "env_display env"
  shows "RootWindow (start env) (DefaultScreen (start env)) = ServerId 0
    \<and> (\<exists>x d vis. vis = vi_visual (selectAlphaVisual (start env) (DefaultScreen (start env)) vinfo0)
         \<and> take 2 (history (fst (main env vinfo0 n))) =
         [Queued (CreateColormap (ClientId 0) (ServerId 0) vis AllocNone),
          Queued (CreateWindow (ClientId 1) (ServerId 0) x 50 200 200 0 d InputOutput vis
            {CWColormap, CWBackPixel, CWBorderPixel, CWOverrideRedirect}
            \<lparr>colormap = ClientId 0, background_pixel = 0, border_pixel = 0,
               override_redirect = True\<rparr>)])
    \<and> (\<forall>v. find (\<lambda>vi. vi_depth vi = 32 \<and> vi_class vi = TrueColor) (env_visuals env) = Some v \<longrightarrow>
         (\<exists>w cmap. srv_windows (server (fst (main env vinfo0 n))) (ClientId 1) = Some w
            \<and> w_colormap w = Some cmap \<and> w_visual w = vi_visual v
            \<and> srv_colormaps (server (fst (main env vinfo0 n))) cmap = Some (w_visual w))
         \<and> srv_errors (server (fst (main env vinfo0 n))) = [])"
  by (simp add: RootWindow_def DefaultScreen_def main_create_request [OF assms]
      main_overlay [OF assms] main_errors [OF assms])

theorem colormap_matches_window_visual_witness:
  "env_display desktop
   \<and> find (\<lambda>vi. vi_depth vi = 32 \<and> vi_class vi = TrueColor) (env_visuals desktop) =
       Some \<lparr>vi_visual = 118, vi_depth = 32, vi_class = TrueColor\<rparr>
   \<and> (\<exists>x d. take 2 (history (fst (main desktop stale 0))) =
         [Queued (CreateColormap (ClientId 0) (ServerId 0) 118 AllocNone),
          Queued (CreateWindow (ClientId 1) (ServerId 0) x 50 200 200 0 d InputOutput 118
            {CWColormap, CWBackPixel, CWBorderPixel, CWOverrideRedirect}
            \<lparr>colormap = ClientId 0, background_pixel = 0, border_pixel = 0,
               override_redirect = True\<rparr>)])
   \<and> (\<exists>w cmap. srv_windows (server (fst (main desktop stale 0))) (ClientId 1) = Some w
          \<and> w_colormap w = Some cmap \<and> w_visual w = 118
          \<and> srv_colormaps (server (fst (main desktop stale 0))) cmap = Some (w_visual w))
   \<and> srv_errors (server (fst (main desktop stale 0))) = []"
proof -
  have sel: "selectAlphaVisual (start desktop) 0 stale =
      \<lparr>vi_visual = 118, vi_depth = 32, vi_class = TrueColor\<rparr>"
    using desktop_visual by (simp add: selectAlphaVisual_found start_simps boot_simps)
  show ?thesis
    using colormap_matches_window_visual [OF fixtures_display(1), of stale 0]
    by (simp add: fixtures_display desktop_visual sel DefaultScreen_def)
qed

section \<open>The order of the setup\<close>

lemma replay_sleeps: "replay (replicate n (Slept (Suc 0))) buf s = []"
  by (induction n) simp_all

lemma main_replay:
  assumes "env_display env"
  shows "replay (history (fst (main env vinfo0 n))) [] (boot env) =
    [deliver_all
       [CreateColormap (ClientId 0) (ServerId 0)
          (vi_visual (selectAlphaVisual (start env) 0 vinfo0)) AllocNone,
        CreateWindow (ClientId 1) (ServerId 0) (int16 (uint (env_width env) - 250)) 50 200 200 0
          (card8 (vi_depth (selectAlphaVisual (start env) 0 vinfo0))) InputOutput
          (vi_visual (selectAlphaVisual (start env) 0 vinfo0))
          {CWColormap, CWBackPixel, CWBorderPixel, CWOverrideRedirect}
          \<lparr>colormap = ClientId 0, background_pixel = 0, border_pixel = 0,
             override_redirect = True\<rparr>,
        ChangeProperty (ClientId 1) ''WM_NAME'' ''C ClickThrough Test'',
        MapWindow (ClientId 1)]
       (boot env),
     deliver_all
       (if env_shape env then [ShapeMask (ClientId 1) ShapeInput 0 0 None ShapeSet] else [])
       (deliver_all
         [CreateColormap (ClientId 0) (ServerId 0)
            (vi_visual (selectAlphaVisual (start env) 0 vinfo0)) AllocNone,
          CreateWindow (ClientId 1) (ServerId 0) (int16 (uint (env_width env) - 250)) 50 200 200 0
            (card8 (vi_depth (selectAlphaVisual (start env) 0 vinfo0))) InputOutput
            (vi_visual (selectAlphaVisual (start env) 0 vinfo0))
            {CWColormap, CWBackPixel, CWBorderPixel, CWOverrideRedirect}
            \<lparr>colormap = ClientId 0, background_pixel = 0, border_pixel = 0,
               override_redirect = True\<rparr>,
          ChangeProperty (ClientId 1) ''WM_NAME'' ''C ClickThrough Test'',
          MapWindow (ClientId 1)]
         (boot env)),
     server (fst (main env vinfo0 n))]"
  unfolding main_server [OF assms] main_history [OF assms]
  by (simp add: replay_sleeps)

lemma shown_pointer:
  assumes "find (\<lambda>vi. vi_depth vi = 32 \<and> vi_class vi = TrueColor) (env_visuals env) = Some v"
  shows "pointer_delivered
      (deliver_all
        [CreateColormap (ClientId 0) (ServerId 0) (vi_visual v) AllocNone,
         CreateWindow (ClientId 1) (ServerId 0) x 50 200 200 0 32 InputOutput (vi_visual v)
           {CWColormap, CWBackPixel, CWBorderPixel, CWOverrideRedirect}
           \<lparr>colormap = ClientId 0, background_pixel = 0, border_pixel = 0, override_redirect = True\<rparr>,
         ChangeProperty (ClientId 1) ''WM_NAME'' ''C ClickThrough Test'',
         MapWindow (ClientId 1)] (boot env)) (ClientId (Suc 0)) pt = (pt \<in> rectangle 0 0 200 200)"
    and "visible_region
      (deliver_all
        [CreateColormap (ClientId 0) (ServerId 0) (vi_visual v) AllocNone,
         CreateWindow (ClientId 1) (ServerId 0) x 50 200 200 0 32 InputOutput (vi_visual v)
           {CWColormap, CWBackPixel, CWBorderPixel, CWOverrideRedirect}
           \<lparr>colormap = ClientId 0, background_pixel = 0, border_pixel = 0, override_redirect = True\<rparr>,
         ChangeProperty (ClientId 1) ''WM_NAME'' ''C ClickThrough Test'',
         MapWindow (ClientId 1)] (boot env)) (ClientId (Suc 0)) = rectangle 0 0 200 200"
  unfolding created [OF assms]
  by (simp_all add: pointer_delivered_def visible_region_def effective_input_def
      effective_bounding_def default_bounding_def)

lemma main_replay_pointer:
  assumes "env_display env"
    and "find (\<lambda>vi. vi_depth vi = 32 \<and> vi_class vi = TrueColor) (env_visuals env) = Some v"
  shows "map (\<lambda>s. pointer_delivered s (ClientId (Suc 0)) pt)
           (replay (history (fst (main env vinfo0 n))) [] (boot env)) =
         [pt \<in> rectangle 0 0 200 200, pt \<in> rectangle 0 0 200 200, pt \<in> rectangle 0 0 200 200]"
proof -
  define s1 where "s1 = deliver_all
        [CreateColormap (ClientId 0) (ServerId 0) (vi_visual v) AllocNone,
         CreateWindow (ClientId 1) (ServerId 0) (int16 (uint (env_width env) - 250)) 50 200 200
           0 32 InputOutput (vi_visual v)
           {CWColormap, CWBackPixel, CWBorderPixel, CWOverrideRedirect}
           \<lparr>colormap = ClientId 0, background_pixel = 0, border_pixel = 0, override_redirect = True\<rparr>,
         ChangeProperty (ClientId 1) ''WM_NAME'' ''C ClickThrough Test'',
         MapWindow (ClientId 1)] (boot env)"
  have sel: "selectAlphaVisual (start env) 0 vinfo0 = v"
    using assms(2) by (simp add: selectAlphaVisual_found start_simps boot_simps)
  have d: "card8 (vi_depth v) = 32"
    using find_visual(1) [OF assms(2)] by (simp add: card8_small)
  have r: "replay (history (fst (main env vinfo0 n))) [] (boot env) =
      [s1,
       deliver_all
         (if env_shape env then [ShapeMask (ClientId 1) ShapeInput 0 0 None ShapeSet] else []) s1,
       server (fst (main env vinfo0 n))]"
    unfolding main_replay [OF assms(1)] sel d s1_def by (rule refl)
  have p1: "pointer_delivered s1 (ClientId (Suc 0)) pt = (pt \<in> rectangle 0 0 200 200)"
    unfolding s1_def by (rule shown_pointer(1) [OF assms(2)])
  have v1: "visible_region s1 (ClientId (Suc 0)) = rectangle 0 0 200 200"
    unfolding s1_def by (rule shown_pointer(2) [OF assms(2)])
  have sh: "srv_shape s1 = env_shape env"
    unfolding s1_def by (simp add: deliver_all_shape boot_simps)
  have p2: "pointer_delivered
      (deliver_all
         (if env_shape env then [ShapeMask (ClientId 1) ShapeInput 0 0 None ShapeSet] else []) s1)
      (ClientId (Suc 0)) pt = (pt \<in> rectangle 0 0 200 200)"
    by (simp add: deliver_all_Cons deliver_all_Nil shape_none_pointer sh p1 v1)
  show ?thesis
    unfolding r by (simp add: p1 p2 main_pointer [OF assms])
qed

text \<open>
  Claim C5. On \<open>desktop\<close> the calls of \<open>main\<close> come in the order the claim gives:
  between the map request and the shape request the process flushes, prints two lines,
  sleeps one second and prints a line, waiting for no event, and the requests of paint
  follow the shape request and its flush. The state that the shape request is to bring
  about is never reached: replaying the history, the server after each of the three
  flushes (the last being the server at the end of \<open>main\<close>) has the overlay mapped and
  delivers a pointer event at (10, 10) to it, so there is no point of the run at which the
  window's input region is empty.
\<close>

theorem setup_never_reaches_click_through:
  "between (Queued (MapWindow (ClientId 1)))
      (Queued (ShapeMask (ClientId 1) ShapeInput 0 0 None ShapeSet))
      (history (fst (main desktop vinfo0 n))) =
     [Flushed,
      Printf ''Window created at (%d, %d) size %dx%d\<newline>''
        [ArgInt 1670, ArgInt 50, ArgInt 200, ArgInt 200],
      Printf ''Window ID: 0x%lx\<newline>'' [ArgXid (ClientId 1)],
      Slept 1,
      Printf ''Applying click-through with Shape extension...\<newline>'' []]
   \<and> between (Queued (ShapeMask (ClientId 1) ShapeInput 0 0 None ShapeSet))
      (Queued (PolyFillRectangle (ClientId 1) (ClientId 2) 0 0 200 200))
      (history (fst (main desktop vinfo0 n))) =
     [Flushed,
      Printf ''Click-through applied - input shape removed\<newline>'' [],
      Queued (CreateGC (ClientId 2) (ClientId 1)),
      Queued (ChangeGC (ClientId 2) 0xFFFF0000)]
   \<and> last (replay (history (fst (main desktop vinfo0 n))) [] (boot desktop)) =
       server (fst (main desktop vinfo0 n))
   \<and> map (\<lambda>s. pointer_delivered s (ClientId 1) (10, 10))
        (replay (history (fst (main desktop vinfo0 n))) [] (boot desktop)) =
       [True, True, True]"
proof -
  have b: "between (Queued (MapWindow (ClientId 1)))
      (Queued (ShapeMask (ClientId 1) ShapeInput 0 0 None ShapeSet))
      (history (fst (main desktop vinfo0 n))) =
     [Flushed,
      Printf ''Window created at (%d, %d) size %dx%d\<newline>''
        [ArgInt 1670, ArgInt 50, ArgInt 200, ArgInt 200],
      Printf ''Window ID: 0x%lx\<newline>'' [ArgXid (ClientId 1)],
      Slept 1,
      Printf ''Applying click-through with Shape extension...\<newline>'' []]"
    unfolding main_history [OF fixtures_display(1)] between_def
    by (simp add: fixtures_display)
  have c: "between (Queued (ShapeMask (ClientId 1) ShapeInput 0 0 None ShapeSet))
      (Queued (PolyFillRectangle (ClientId 1) (ClientId 2) 0 0 200 200))
      (history (fst (main desktop vinfo0 n))) =
     [Flushed,
      Printf ''Click-through applied - input shape removed\<newline>'' [],
      Queued (CreateGC (ClientId 2) (ClientId 1)),
      Queued (ChangeGC (ClientId 2) 0xFFFF0000)]"
    unfolding main_history [OF fixtures_display(1)] between_def
    by (simp add: fixtures_display)
  have l: "last (replay (history (fst (main desktop vinfo0 n))) [] (boot desktop)) =
       server (fst (main desktop vinfo0 n))"
    unfolding main_replay [OF fixtures_display(1)] by simp
  have m: "map (\<lambda>s. pointer_delivered s (ClientId 1) (10, 10))
        (replay (history (fst (main desktop vinfo0 n))) [] (boot desktop)) =
       [True, True, True]"
    using main_replay_pointer [OF fixtures_display(1) desktop_visual, of "(10, 10)" vinfo0 n]
    by (simp add: rectangle_def)
  from b c l m show ?thesis by simp
qed


section \<open>A display without the Shape extension\<close>

text \<open>
  Claim C4. On \<open>no_shape\<close> nothing fails: \<open>XShapeCombineMask\<close> only runs the
  library's missing-extension hook, \<open>main\<close> prints "Click-through applied - input shape
  removed", draws, prints "Window should be visible and click-through" and is still
  running, whatever the number of turns of the keep-alive loop. The window's state is not
  disturbed, as the claim says: the overlay is visible on its whole rectangle and a
  pointer event at (10, 10) is delivered to it; in every state \<open>setClickThrough\<close> leaves
  the server as the requests queued before leave it when the extension is absent.
\<close>

theorem missing_shape_extension_is_not_fatal:
  "snd (main no_shape vinfo0 n) = None
   \<and> between (Queued (MapWindow (ClientId 1))) (Queued (CreateGC (ClientId 2) (ClientId 1)))
        (history (fst (main no_shape vinfo0 n))) =
       [Flushed,
        Printf ''Window created at (%d, %d) size %dx%d\<newline>''
          [ArgInt 1670, ArgInt 50, ArgInt 200, ArgInt 200],
        Printf ''Window ID: 0x%lx\<newline>'' [ArgXid (ClientId 1)],
        Slept 1,
        Printf ''Applying click-through with Shape extension...\<newline>'' [],
        MissingExtension ''SHAPE'',
        Flushed,
        Printf ''Click-through applied - input shape removed\<newline>'' []]
   \<and> Queued (PolyFillRectangle (ClientId 1) (ClientId 2) 0 0 200 200)
       \<in> set (history (fst (main no_shape vinfo0 n)))
   \<and> Printf ''Window should be visible and click-through\<newline>'' []
       \<in> set (history (fst (main no_shape vinfo0 n)))
   \<and> visible_region (server (fst (main no_shape vinfo0 n))) (ClientId 1) = rectangle 0 0 200 200
   \<and> pointer_delivered (server (fst (main no_shape vinfo0 n))) (ClientId 1) (10, 10)
   \<and> server (setClickThrough window p) =
       (if srv_shape (server p)
        then shape_mask window ShapeInput 0 0 None ShapeSet (deliver_all (outbuf p) (server p))
        else deliver_all (outbuf p) (server p))"
proof -
  have b: "between (Queued (MapWindow (ClientId 1))) (Queued (CreateGC (ClientId 2) (ClientId 1)))
        (history (fst (main no_shape vinfo0 n))) =
       [Flushed,
        Printf ''Window created at (%d, %d) size %dx%d\<newline>''
          [ArgInt 1670, ArgInt 50, ArgInt 200, ArgInt 200],
        Printf ''Window ID: 0x%lx\<newline>'' [ArgXid (ClientId 1)],
        Slept 1,
        Printf ''Applying click-through with Shape extension...\<newline>'' [],
        MissingExtension ''SHAPE'',
        Flushed,
        Printf ''Click-through applied - input shape removed\<newline>'' []]"
    unfolding main_history [OF fixtures_display(2)] between_def
    by (simp add: fixtures_display)
  have h: "Queued (PolyFillRectangle (ClientId 1) (ClientId 2) 0 0 200 200)
       \<in> set (history (fst (main no_shape vinfo0 n)))"
    "Printf ''Window should be visible and click-through\<newline>'' []
       \<in> set (history (fst (main no_shape vinfo0 n)))"
    by (simp_all add: main_history [OF fixtures_display(2)])
  have w: "visible_region (server (fst (main no_shape vinfo0 n))) (ClientId 1) = rectangle 0 0 200 200"
    "pointer_delivered (server (fst (main no_shape vinfo0 n))) (ClientId 1) (10, 10)"
    by (simp_all add: main_visible [OF fixtures_display(2) no_shape_visual]
        main_pointer [OF fixtures_display(2) no_shape_visual] rectangle_def)
  from b h w show ?thesis
    by (simp add: main_status [OF fixtures_display(2)] setClickThrough_server)
qed

end
